theory Spec2Isabelle
  imports Main "HOL-Library.AList" "HOL-Library.Multiset"
begin

section \<open>Python values used by the quiz game\<close>

subsection \<open>Characters and texts\<close>

text \<open>
  A character of a Python text is a code point. The code points here are those from 0 to
  255 together with the three that upper and lower case reach from them: U+0178 (the
  upper case of U+00FF), U+039C (the upper case of U+00B5) and U+03BC (the lower case of
  U+039C). On these code points the functions below are Python's own
  \<^verbatim>\<open>str.isspace\<close>, \<^verbatim>\<open>str.isalpha\<close>, \<^verbatim>\<open>str.isdigit\<close>, \<^verbatim>\<open>str.upper\<close>, \<^verbatim>\<open>str.lower\<close>
  and \<^verbatim>\<open>str.strip\<close>, and no function leaves them.
\<close>

datatype codepoint = Latin1 char | Capital_Y_Diaeresis | Capital_Mu | Small_Mu

type_synonym pystr = "codepoint list"

text \<open>\<^verbatim>\<open>ord(c)\<close>.\<close>

fun py_ord :: "codepoint \<Rightarrow> nat" where
  "py_ord (Latin1 c) = of_char c"
| "py_ord Capital_Y_Diaeresis = 376"
| "py_ord Capital_Mu = 924"
| "py_ord Small_Mu = 956"

text \<open>The code point with a given number, when it is one of those above.\<close>

definition codepoint_of :: "nat \<Rightarrow> codepoint option" where
  "codepoint_of n =
     (if n < 256 then Some (Latin1 (char_of n))
      else if n = 376 then Some Capital_Y_Diaeresis
      else if n = 924 then Some Capital_Mu
      else if n = 956 then Some Small_Mu
      else None)"

text \<open>A text literal.\<close>

definition str :: "string \<Rightarrow> pystr" where
  "str s = map Latin1 s"

datatype error =
    FileNotFoundError
  | ValueError_grade_level
  | ValueError_difficulty
  | ValueError_no_questions
  | ValueError_chr
  | IndexError_no_current_question
  | IndexError_out_of_range
  | TypeError_ord
  | KeyError

text \<open>Sequencing of a fallible step: an exception of the first step propagates.\<close>

definition try_bind :: "error + 'a \<Rightarrow> ('a \<Rightarrow> error + 'b) \<Rightarrow> error + 'b" where
  "try_bind r f = (case r of Inl e \<Rightarrow> Inl e | Inr v \<Rightarrow> f v)"

text \<open>\<^verbatim>\<open>xs[i]\<close>: a negative index counts from the end, anything else out of range raises.\<close>

definition list_get :: "'a list \<Rightarrow> int \<Rightarrow> error + 'a" where
  "list_get xs i =
     (if 0 \<le> i \<and> i < int (length xs) then Inr (xs ! nat i)
      else if i < 0 \<and> - int (length xs) \<le> i then Inr (xs ! nat (int (length xs) + i))
      else Inl IndexError_out_of_range)"

text \<open>White space: the controls 9 to 13 and 28 to 31, the space, U+0085 and U+00A0.\<close>

definition isspace_char :: "codepoint \<Rightarrow> bool" where
  "isspace_char c =
     ((9 \<le> py_ord c \<and> py_ord c \<le> 13) \<or> (28 \<le> py_ord c \<and> py_ord c \<le> 32) \<or>
      py_ord c = 133 \<or> py_ord c = 160)"

text \<open>Letters: A to Z, a to z, U+00AA, U+00B5, U+00BA, U+00C0 to U+00FF without the
  signs U+00D7 and U+00F7, and the three code points beyond 255.\<close>

definition isalpha_char :: "codepoint \<Rightarrow> bool" where
  "isalpha_char c =
     ((65 \<le> py_ord c \<and> py_ord c \<le> 90) \<or> (97 \<le> py_ord c \<and> py_ord c \<le> 122) \<or>
      py_ord c = 170 \<or> py_ord c = 181 \<or> py_ord c = 186 \<or>
      (192 \<le> py_ord c \<and> py_ord c \<le> 214) \<or> (216 \<le> py_ord c \<and> py_ord c \<le> 246) \<or>
      (248 \<le> py_ord c \<and> py_ord c \<le> 255) \<or>
      py_ord c = 376 \<or> py_ord c = 924 \<or> py_ord c = 956)"

text \<open>Digits: 0 to 9 and the superscripts U+00B2, U+00B3, U+00B9.\<close>

definition isdigit_char :: "codepoint \<Rightarrow> bool" where
  "isdigit_char c =
     ((48 \<le> py_ord c \<and> py_ord c \<le> 57) \<or> py_ord c = 178 \<or> py_ord c = 179 \<or> py_ord c = 185)"

text \<open>Upper case of one character, a text: U+00DF becomes \<^verbatim>\<open>SS\<close>.\<close>

definition upper_char :: "codepoint \<Rightarrow> pystr" where
  "upper_char c =
     (if (97 \<le> py_ord c \<and> py_ord c \<le> 122) \<or>
         (224 \<le> py_ord c \<and> py_ord c \<le> 254 \<and> py_ord c \<noteq> 247)
      then [Latin1 (char_of (py_ord c - 32))]
      else if py_ord c = 223 then [Latin1 CHR ''S'', Latin1 CHR ''S'']
      else if py_ord c = 181 \<or> py_ord c = 956 then [Capital_Mu]
      else if py_ord c = 255 then [Capital_Y_Diaeresis]
      else [c])"

definition lower_char :: "codepoint \<Rightarrow> codepoint" where
  "lower_char c =
     (if (65 \<le> py_ord c \<and> py_ord c \<le> 90) \<or>
         (192 \<le> py_ord c \<and> py_ord c \<le> 222 \<and> py_ord c \<noteq> 215)
      then Latin1 (char_of (py_ord c + 32))
      else if py_ord c = 376 then Latin1 (char_of (255 :: nat))
      else if py_ord c = 924 then Small_Mu
      else c)"

definition str_upper :: "pystr \<Rightarrow> pystr" where
  "str_upper s = concat (map upper_char s)"

definition str_lower :: "pystr \<Rightarrow> pystr" where
  "str_lower s = map lower_char s"

definition str_strip :: "pystr \<Rightarrow> pystr" where
  "str_strip s = rev (dropWhile isspace_char (rev (dropWhile isspace_char s)))"

definition str_isalpha :: "pystr \<Rightarrow> bool" where
  "str_isalpha s = (s \<noteq> [] \<and> list_all isalpha_char s)"

definition str_isdigit :: "pystr \<Rightarrow> bool" where
  "str_isdigit s = (s \<noteq> [] \<and> list_all isdigit_char s)"

definition str_startswith :: "pystr \<Rightarrow> pystr \<Rightarrow> bool" where
  "str_startswith s p = (take (length p) s = p)"

definition str_contains :: "codepoint \<Rightarrow> pystr \<Rightarrow> bool" where
  "str_contains c s = (c \<in> set s)"

text \<open>\<^verbatim>\<open>s.split(sep, 1)\<close> for a one-character separator: the text is cut at the first
  separator, and is returned whole (one part) when it has none.\<close>

fun split_at :: "codepoint \<Rightarrow> pystr \<Rightarrow> pystr \<Rightarrow> pystr list" where
  "split_at sep seen [] = [rev seen]"
| "split_at sep seen (c # cs) =
     (if c = sep then [rev seen, cs] else split_at sep (c # seen) cs)"

definition str_split1 :: "codepoint \<Rightarrow> pystr \<Rightarrow> pystr list" where
  "str_split1 sep s = split_at sep [] s"

section \<open>Questions.py\<close>

datatype question_class = Question | EasyQuestion | MediumQuestion | HardQuestion

record question =
  q_class :: question_class
  question_text :: pystr
  answers :: "pystr list"
  correct_answer :: pystr

definition new_question :: "question_class \<Rightarrow> pystr \<Rightarrow> pystr list \<Rightarrow> pystr \<Rightarrow> question" where
  "new_question cls text ans correct =
     \<lparr>q_class = cls, question_text = text, answers = ans, correct_answer = correct\<rparr>"

text \<open>\<^verbatim>\<open>get_points\<close> exists on the three tier classes only: \<open>None\<close> is the base
  class, on which \<^verbatim>\<open>hasattr(q, "get_points")\<close> is false.\<close>

definition get_points :: "question \<Rightarrow> int option" where
  "get_points q =
     (case q_class q of
        Question \<Rightarrow> None
      | EasyQuestion \<Rightarrow> Some 1
      | MediumQuestion \<Rightarrow> Some 3
      | HardQuestion \<Rightarrow> Some 5)"

section \<open>QuizGame.py: the question bank\<close>

definition DIFF_TO_CLASS :: "(pystr \<times> question_class) list" where
  "DIFF_TO_CLASS = [(str ''Easy'', EasyQuestion), (str ''Medium'', MediumQuestion), (str ''Hard'', HardQuestion)]"

definition GRADE_LEVELS :: "pystr list" where
  "GRADE_LEVELS = [str ''ELEMENTARY'', str ''HIGH SCHOOL'']"

definition DIFFICULTIES :: "pystr list" where
  "DIFFICULTIES = [str ''Easy'', str ''Medium'', str ''Hard'']"

text \<open>\<^verbatim>\<open>_all_questions\<close>: grade, then difficulty, then the questions in file order.
  A dictionary keeps its keys in insertion order, so it is an association list.\<close>

type_synonym bank = "(pystr \<times> (pystr \<times> question list) list) list"

definition empty_bank :: bank where
  "empty_bank = map (\<lambda>grade. (grade, map (\<lambda>diff. (diff, [])) DIFFICULTIES)) GRADE_LEVELS"

definition dict_get :: "('k \<times> 'v) list \<Rightarrow> 'k \<Rightarrow> error + 'v" where
  "dict_get d k = (case map_of d k of None \<Rightarrow> Inl KeyError | Some v \<Rightarrow> Inr v)"

definition bank_append :: "bank \<Rightarrow> pystr \<Rightarrow> pystr \<Rightarrow> question \<Rightarrow> error + bank" where
  "bank_append b grade difficulty q =
     try_bind (dict_get b grade) (\<lambda>by_diff.
     try_bind (dict_get by_diff difficulty) (\<lambda>qs.
       Inr (AList.update grade (AList.update difficulty (qs @ [q]) by_diff) b)))"

definition looks_like_qnum :: "pystr \<Rightarrow> bool" where
  "looks_like_qnum line =
     (length line > 2 \<and>
      (case list_get (str_split1 (Latin1 CHR ''.'') line) 0 of
         Inl e \<Rightarrow> False
       | Inr part \<Rightarrow> str_isdigit (str_strip part)))"

text \<open>The four choice lines of a block, read from \<open>idx\<close> on.\<close>

fun parse_choices :: "pystr list \<Rightarrow> nat \<Rightarrow> nat \<Rightarrow> pystr list \<Rightarrow> error + (pystr list \<times> nat)" where
  "parse_choices lines idx 0 ans = Inr (ans, idx)"
| "parse_choices lines idx (Suc n) ans =
     (case list_get lines (int idx) of
        Inl e \<Rightarrow> Inl e
      | Inr raw \<Rightarrow>
          (let choice_line = str_strip raw in
           if str_contains (Latin1 CHR '')'') choice_line then
             (case list_get (str_split1 (Latin1 CHR '')'') choice_line) 1 of
                Inl e \<Rightarrow> Inl e
              | Inr rest \<Rightarrow> parse_choices lines (idx + 1) n (ans @ [str_strip rest]))
           else parse_choices lines (idx + 1) n (ans @ [choice_line])))"

definition parse_question_block ::
  "pystr list \<Rightarrow> nat \<Rightarrow> error + (pystr \<times> pystr list \<times> pystr \<times> nat)" where
  "parse_question_block lines start_idx =
     try_bind (list_get lines (int start_idx)) (\<lambda>q_line.
     try_bind (list_get (str_split1 (Latin1 CHR ''.'') q_line) 1) (\<lambda>after_dot.
     let q_text = str_strip after_dot in
     try_bind (parse_choices lines (start_idx + 1) 4 []) (\<lambda>(ans, idx).
     try_bind (list_get lines (int idx)) (\<lambda>raw.
     let ans_line = str_strip raw in
     try_bind
       (if str_contains (Latin1 CHR '':'') ans_line
        then try_bind (list_get (str_split1 (Latin1 CHR '':'') ans_line) 1) (\<lambda>rest. Inr (str_strip rest))
        else Inr (str_strip ans_line)) (\<lambda>correct.
     try_bind (list_get correct 0) (\<lambda>first.
       Inr (q_text, ans, str_upper [first], idx + 1)))))))"

lemma parse_choices_idx:
  "parse_choices lines idx n ans = Inr (ans', idx') \<Longrightarrow> idx' = idx + n"
proof (induction n arbitrary: idx ans)
  case 0
  then show ?case by simp
next
  case (Suc n)
  then show ?case
    by (fastforce simp: Let_def split: sum.splits if_splits)
qed

lemma parse_question_block_consumed:
  assumes "parse_question_block lines i = Inr (q_text, ans, correct, consumed)"
  shows "consumed = i + 6 \<and> consumed \<le> length lines"
proof -
  from assms obtain ans' idx raw where
    ch: "parse_choices lines (i + 1) 4 [] = Inr (ans', idx)" and
    ln: "list_get lines (int idx) = Inr raw" and
    cs: "consumed = idx + 1"
    by (auto simp: parse_question_block_def try_bind_def Let_def split: sum.splits if_splits)
  from ch have "idx = i + 5"
    using parse_choices_idx by fastforce
  moreover from ln have "idx < length lines"
    by (auto simp: list_get_def split: if_splits)
  ultimately show ?thesis
    using cs by simp
qed

text \<open>The scanning loop of \<^verbatim>\<open>_load_questions_from_file\<close>: \<open>i\<close> is the line index,
  \<open>grade\<close> and \<open>difficulty\<close> the current section.\<close>

function parse_loop ::
  "pystr list \<Rightarrow> nat \<Rightarrow> pystr option \<Rightarrow> pystr option \<Rightarrow> bank \<Rightarrow> error + bank" where
  "parse_loop lines i grade difficulty b =
     (if i < length lines then
        (let line = str_strip (lines ! i) in
         if line = [] then parse_loop lines (i + 1) grade difficulty b
         else if str_startswith (str_upper line) (str ''ELEMENTARY LEVEL'') then
           parse_loop lines (i + 1) (Some (str ''ELEMENTARY'')) None b
         else if str_startswith (str_upper line) (str ''HIGH SCHOOL LEVEL'') then
           parse_loop lines (i + 1) (Some (str ''HIGH SCHOOL'')) None b
         else if str_startswith line (str ''Easy'') \<and> grade \<noteq> None then
           parse_loop lines (i + 1) grade (Some (str ''Easy'')) b
         else if str_startswith line (str ''Medium'') \<and> grade \<noteq> None then
           parse_loop lines (i + 1) grade (Some (str ''Medium'')) b
         else if str_startswith line (str ''Hard'') \<and> grade \<noteq> None then
           parse_loop lines (i + 1) grade (Some (str ''Hard'')) b
         else
           (case (grade, difficulty) of
              (Some g, Some d) \<Rightarrow>
                if looks_like_qnum line then
                  (case parse_question_block lines i of
                     Inl e \<Rightarrow> Inl e
                   | Inr (q_text, ans, correct_letter, consumed) \<Rightarrow>
                       (case dict_get DIFF_TO_CLASS d of
                          Inl e \<Rightarrow> Inl e
                        | Inr cls \<Rightarrow>
                            (case bank_append b g d (new_question cls q_text ans correct_letter) of
                               Inl e \<Rightarrow> Inl e
                             | Inr b' \<Rightarrow> parse_loop lines consumed grade difficulty b')))
                else parse_loop lines (i + 1) grade difficulty b
            | _ \<Rightarrow> parse_loop lines (i + 1) grade difficulty b))
      else Inr b)"
  by pat_completeness auto
termination
proof (relation "measure (\<lambda>(lines, i, grade, difficulty, b). length lines - i)")
  show "wf (measure (\<lambda>(lines, i, grade, difficulty, b). length lines - i))"
    by simp
next
  fix lines :: "pystr list" and i :: nat and q_text ans correct_letter consumed
    and grade difficulty :: "pystr option" and b b' :: bank and x y z cls
  assume "i < length lines"
    and "parse_question_block lines i = Inr x"
    and "(q_text, y) = x" and "(ans, z) = y" and "(correct_letter, consumed) = z"
  then have "consumed = i + 6"
    using parse_question_block_consumed by metis
  then show "((lines, consumed, grade, difficulty, b'), (lines, i, grade, difficulty, b))
      \<in> measure (\<lambda>(lines, i, grade, difficulty, b). length lines - i)"
    using \<open>i < length lines\<close> by simp
qed auto

declare parse_loop.simps [simp del]

text \<open>\<^verbatim>\<open>_load_questions_from_file\<close>: the file is given as its lines, each without its
  line feed, or \<open>None\<close> when it does not exist.\<close>

definition load_questions_from_file :: "pystr list option \<Rightarrow> error + bank" where
  "load_questions_from_file file =
     (case file of
        None \<Rightarrow> Inl FileNotFoundError
      | Some lines \<Rightarrow> parse_loop lines 0 None None empty_bank)"

section \<open>QuizGame.py: the session\<close>

text \<open>The fields of a \<^verbatim>\<open>QuizGame\<close> object. \<open>current_index\<close> is only ever assigned 0
  or incremented, so it is a natural number. The name of the bank file is not a field here:
  the file itself is an argument of \<open>init_game\<close>.\<close>

record quiz_game =
  all_questions :: bank
  question_bank :: "question list"
  score :: int
  current_index :: nat
  session_meta :: "(pystr \<times> pystr) list"

definition empty_meta :: "(pystr \<times> pystr) list" where
  "empty_meta = [(str ''grade_level'', []), (str ''difficulty'', [])]"

text \<open>\<^verbatim>\<open>__init__\<close>: an exception of the parser leaves no object behind.\<close>

definition init_game :: "pystr list option \<Rightarrow> error + quiz_game" where
  "init_game file =
     (case load_questions_from_file file of
        Inl e \<Rightarrow> Inl e
      | Inr b \<Rightarrow>
          Inr \<lparr>all_questions = b, question_bank = [], score = 0, current_index = 0,
               session_meta = empty_meta\<rparr>)"

text \<open>\<^verbatim>\<open>random.shuffle\<close> of the standard library: for \<open>i\<close> from the last index down
  to 1, the entries at \<open>i\<close> and at a random \<open>j\<close> in \<open>0..i\<close> are exchanged. The random
  source is the parameter \<open>rand\<close>; its draw for position \<open>i\<close> is reduced into \<open>0..i\<close>, so
  every sequence of draws the library can make is some \<open>rand\<close>.\<close>

fun shuffle_from :: "(nat \<Rightarrow> nat) \<Rightarrow> nat \<Rightarrow> 'a list \<Rightarrow> 'a list" where
  "shuffle_from rand 0 xs = xs"
| "shuffle_from rand (Suc i) xs =
     (let j = rand (Suc i) mod (Suc i + 1)
      in shuffle_from rand i (xs[Suc i := xs ! j, j := xs ! Suc i]))"

definition random_shuffle :: "(nat \<Rightarrow> nat) \<Rightarrow> 'a list \<Rightarrow> 'a list" where
  "random_shuffle rand xs = shuffle_from rand (length xs - 1) xs"

text \<open>The operations return the object after the call together with the outcome of the
  call: \<open>Inl\<close> an exception, \<open>Inr\<close> the returned value.\<close>

definition configure_session ::
  "(nat \<Rightarrow> nat) \<Rightarrow> quiz_game \<Rightarrow> pystr \<Rightarrow> pystr \<Rightarrow> int option \<Rightarrow> quiz_game \<times> (error + unit)" where
  "configure_session rand g grade_level difficulty limit =
     (if str_upper grade_level \<notin> set GRADE_LEVELS then (g, Inl ValueError_grade_level)
      else if difficulty \<notin> set DIFFICULTIES then (g, Inl ValueError_difficulty)
      else
        (case try_bind (dict_get (all_questions g) (str_upper grade_level))
                (\<lambda>by_diff. dict_get by_diff difficulty) of
           Inl e \<Rightarrow> (g, Inl e)
         | Inr qs \<Rightarrow>
             if qs = [] then (g, Inl ValueError_no_questions)
             else
               (let shuffled = random_shuffle rand qs;
                    pool = (case limit of None \<Rightarrow> shuffled
                            | Some k \<Rightarrow> take (nat (max 0 k)) shuffled)
                in (g\<lparr>question_bank := pool, current_index := 0, score := 0,
                      session_meta :=
                        AList.update (str ''difficulty'') difficulty
                          (AList.update (str ''grade_level'') (str_upper grade_level) (session_meta g))\<rparr>,
                    Inr ()))))"

definition display_question :: "quiz_game \<Rightarrow> quiz_game \<times> question option" where
  "display_question g =
     (if current_index g \<ge> length (question_bank g) then (g, None)
      else (g, Some (question_bank g ! current_index g)))"

text \<open>\<^verbatim>\<open>chr(n)\<close> as a one-character text; it raises from \<^verbatim>\<open>0x110000\<close> on. A valid
  number that is none of the code points above gives \<open>None\<close>: such a character
  equals no text over these code points, and the only use of the result below is a
  comparison with the correct letter.\<close>

definition py_chr :: "nat \<Rightarrow> error + pystr option" where
  "py_chr n =
     (if n \<ge> 1114112 then Inl ValueError_chr
      else Inr (case codepoint_of n of None \<Rightarrow> None | Some c \<Rightarrow> Some [c]))"

text \<open>\<^verbatim>\<open>ord(s)\<close> raises unless \<open>s\<close> is one character long.\<close>

definition str_ord :: "pystr \<Rightarrow> error + nat" where
  "str_ord s = (case s of [c] \<Rightarrow> Inr (py_ord c) | _ \<Rightarrow> Inl TypeError_ord)"

text \<open>The loop that matches the input against the answer texts, from position \<open>i\<close> on.\<close>

fun match_choice :: "pystr \<Rightarrow> nat \<Rightarrow> pystr list \<Rightarrow> error + pystr option" where
  "match_choice user_clean i [] = Inr None"
| "match_choice user_clean i (choice # rest) =
     (if str_lower user_clean = str_lower choice then py_chr (py_ord (Latin1 CHR ''A'') + i)
      else match_choice user_clean (i + 1) rest)"

definition user_letter :: "pystr list \<Rightarrow> pystr \<Rightarrow> error + pystr option" where
  "user_letter ans user_clean =
     (if user_clean \<noteq> [] then
        (if length user_clean = 1 \<and> str_isalpha user_clean then Inr (Some (str_upper user_clean))
         else match_choice user_clean 0 ans)
      else Inr None)"

text \<open>The text shown for a wrong answer: \<^verbatim>\<open>answers[ord(correct_letter)-65]\<close>.\<close>

definition correct_choice :: "pystr list \<Rightarrow> pystr \<Rightarrow> error + pystr" where
  "correct_choice ans correct_letter =
     try_bind (str_ord correct_letter) (\<lambda>n. list_get ans (int n - 65))"

definition points_or_one :: "question \<Rightarrow> int" where
  "points_or_one q = (case get_points q of Some p \<Rightarrow> p | None \<Rightarrow> 1)"

definition check_answer :: "quiz_game \<Rightarrow> pystr \<Rightarrow> quiz_game \<times> (error + bool)" where
  "check_answer g user_input =
     (if current_index g \<ge> length (question_bank g) then (g, Inl IndexError_no_current_question)
      else
        (let q = question_bank g ! current_index g;
             ans = answers q;
             correct_letter = str_upper (correct_answer q);
             user_clean = str_strip user_input
         in (case user_letter ans user_clean of
               Inl e \<Rightarrow> (g, Inl e)
             | Inr letter \<Rightarrow>
                 if letter = Some correct_letter then
                   (g\<lparr>score := score g + points_or_one q, current_index := current_index g + 1\<rparr>,
                    Inr True)
                 else
                   (case correct_choice ans correct_letter of
                      Inl e \<Rightarrow> (g, Inl e)
                    | Inr shown \<Rightarrow> (g\<lparr>current_index := current_index g + 1\<rparr>, Inr False)))))"

definition get_score :: "quiz_game \<Rightarrow> int" where
  "get_score g = score g"

definition shuffle_question_bank :: "(nat \<Rightarrow> nat) \<Rightarrow> quiz_game \<Rightarrow> quiz_game" where
  "shuffle_question_bank rand g =
     g\<lparr>question_bank := random_shuffle rand (question_bank g), current_index := 0\<rparr>"

definition reset_game :: "quiz_game \<Rightarrow> quiz_game" where
  "reset_game g = g\<lparr>question_bank := [], score := 0, current_index := 0, session_meta := empty_meta\<rparr>"

section \<open>QuizGame.py: save and resume\<close>

text \<open>The JSON object of a save file. A key may be missing from a file written by hand,
  so every field is optional; \<^verbatim>\<open>save_game\<close> writes them all. Writing and reading JSON
  gives back the same texts, integers and lists, so the file is the object that was written.\<close>

record save_item =
  item_question_text :: "pystr option"
  item_answers :: "pystr list option"
  item_correct :: "pystr option"
  item_points :: "int option"

record save_data =
  data_meta :: "(pystr \<times> pystr) list option"
  data_score :: "int option"
  data_current_index :: "nat option"
  data_remaining :: "save_item list option"

definition save_item_of :: "question \<Rightarrow> save_item" where
  "save_item_of q =
     \<lparr>item_question_text = Some (question_text q),
      item_answers = Some (answers q),
      item_correct = Some (correct_answer q),
      item_points = Some (points_or_one q)\<rparr>"

text \<open>\<^verbatim>\<open>save_game\<close> assigns no field of the object; its result is the file it writes.\<close>

definition save_game :: "quiz_game \<Rightarrow> save_data" where
  "save_game g =
     \<lparr>data_meta = Some (session_meta g),
      data_score = Some (score g),
      data_current_index = Some (current_index g),
      data_remaining = Some (map save_item_of (drop (current_index g) (question_bank g)))\<rparr>"

definition POINTS_TO_CLASS :: "(int \<times> question_class) list" where
  "POINTS_TO_CLASS = [(1, EasyQuestion), (3, MediumQuestion), (5, HardQuestion)]"

definition restore_item :: "save_item \<Rightarrow> error + question" where
  "restore_item item =
     (let q_cls = (case map_of POINTS_TO_CLASS (case item_points item of None \<Rightarrow> 1 | Some p \<Rightarrow> p) of
                     None \<Rightarrow> Question
                   | Some cls \<Rightarrow> cls)
      in (case item_question_text item of
            None \<Rightarrow> Inl KeyError
          | Some text \<Rightarrow>
              (case item_answers item of
                 None \<Rightarrow> Inl KeyError
               | Some ans \<Rightarrow>
                   (case item_correct item of
                      None \<Rightarrow> Inl KeyError
                    | Some correct \<Rightarrow> Inr (new_question q_cls text ans correct)))))"

fun restore_items :: "save_item list \<Rightarrow> question list \<Rightarrow> error + question list" where
  "restore_items [] restored = Inr restored"
| "restore_items (item # items) restored =
     (case restore_item item of
        Inl e \<Rightarrow> Inl e
      | Inr q \<Rightarrow> restore_items items (restored @ [q]))"

text \<open>\<^verbatim>\<open>load_game\<close>: the file is \<open>None\<close> when it does not exist. The meta data, the score
  and the index are assigned before the questions are rebuilt, so an exception there leaves
  them assigned.\<close>

definition load_game :: "quiz_game \<Rightarrow> save_data option \<Rightarrow> quiz_game \<times> (error + unit)" where
  "load_game g file =
     (case file of
        None \<Rightarrow> (g, Inl FileNotFoundError)
      | Some d \<Rightarrow>
          (let g1 = g\<lparr>session_meta := (case data_meta d of None \<Rightarrow> empty_meta | Some m \<Rightarrow> m),
                      score := (case data_score d of None \<Rightarrow> 0 | Some s \<Rightarrow> s),
                      current_index := 0\<rparr>
           in (case restore_items (case data_remaining d of None \<Rightarrow> [] | Some r \<Rightarrow> r) [] of
                 Inl e \<Rightarrow> (g1, Inl e)
               | Inr restored \<Rightarrow> (g1\<lparr>question_bank := restored\<rparr>, Inr ()))))"



text \<open>The fields of a question that a save file keeps: text, options, correct letter and
  point value (1 for a question of the base class, as \<^verbatim>\<open>save_game\<close> writes it).\<close>

definition record_fields :: "question \<Rightarrow> pystr \<times> pystr list \<times> pystr \<times> int" where
  "record_fields q = (question_text q, answers q, correct_answer q, points_or_one q)"

section \<open>Invariants and steps of a session\<close>

text \<open>The invariant of a question record as the specification words it: the correct
  option is one of the upper-case letters A to D, and there are exactly four options.\<close>

definition record_invariant :: "question \<Rightarrow> bool" where
  "record_invariant q =
     (correct_answer q \<in> set [str ''A'', str ''B'', str ''C'', str ''D''] \<and> length (answers q) = 4)"

text \<open>The invariant of a session as the specification words it: the index is at most the
  length of the pool, and the score is not negative.\<close>

definition session_invariant :: "quiz_game \<Rightarrow> bool" where
  "session_invariant g = (current_index g \<le> length (question_bank g) \<and> 0 \<le> score g)"

text \<open>One call of an operation of the session, whatever its arguments and whether it
  returns or raises.\<close>

inductive session_step :: "quiz_game \<Rightarrow> quiz_game \<Rightarrow> bool" where
  step_configure:
    "configure_session rand g grade_level difficulty limit = (g', r) \<Longrightarrow> session_step g g'"
| step_display: "display_question g = (g', shown) \<Longrightarrow> session_step g g'"
| step_answer: "check_answer g user_input = (g', ok) \<Longrightarrow> session_step g g'"
| step_shuffle: "session_step g (shuffle_question_bank rand g)"
| step_reset: "session_step g (reset_game g)"

text \<open>The score that \<^verbatim>\<open>load_game\<close> reads from a file: 0 when the key is missing.\<close>

definition stored_score :: "save_data \<Rightarrow> int" where
  "stored_score d = (case data_score d of None \<Rightarrow> 0 | Some n \<Rightarrow> n)"

text \<open>The option at position \<open>k\<close> is the first one whose text is the input \<open>u\<close>, letter
  case apart.\<close>

definition first_match_at :: "pystr \<Rightarrow> pystr list \<Rightarrow> nat \<Rightarrow> bool" where
  "first_match_at u ans k =
     (k < length ans \<and> str_lower (ans ! k) = str_lower u \<and>
      list_all (\<lambda>a. str_lower u \<noteq> str_lower a) (take k ans))"

section \<open>Example banks and sessions\<close>

definition bank_lines :: "pystr list" where
  "bank_lines =
     [str ''ELEMENTARY LEVEL'', str ''Easy'', str ''1. 2+2?'', str ''a) 3'', str ''b) 4'', str ''c) 5'', str ''d) 6'',
      str ''Answer: B'']"

definition two_plus_two :: question where
  "two_plus_two =
     \<lparr>q_class = EasyQuestion, question_text = str ''2+2?'', answers = [str ''3'', str ''4'', str ''5'', str ''6''],
      correct_answer = str ''B''\<rparr>"

definition bank_of :: "question \<Rightarrow> bank" where
  "bank_of q =
     [(str ''ELEMENTARY'', [(str ''Easy'', [q]), (str ''Medium'', []), (str ''Hard'', [])]),
      (str ''HIGH SCHOOL'', [(str ''Easy'', []), (str ''Medium'', []), (str ''Hard'', [])])]"

text \<open>The game object right after \<^verbatim>\<open>__init__\<close> on a bank with the one question \<open>q\<close>,
  and the session configured on it for ELEMENTARY and Easy.\<close>

definition game_of :: "question \<Rightarrow> quiz_game" where
  "game_of q =
     \<lparr>all_questions = bank_of q, question_bank = [], score = 0, current_index = 0,
      session_meta = empty_meta\<rparr>"

definition session_of :: "question \<Rightarrow> quiz_game" where
  "session_of q =
     \<lparr>all_questions = bank_of q, question_bank = [q], score = 0, current_index = 0,
      session_meta = [(str ''grade_level'', str ''ELEMENTARY''), (str ''difficulty'', str ''Easy'')]\<rparr>"

definition fresh_game :: quiz_game where
  "fresh_game = game_of two_plus_two"

definition session_start :: quiz_game where
  "session_start = session_of two_plus_two"

definition session_done :: quiz_game where
  "session_done = session_start\<lparr>score := 1, current_index := 1\<rparr>"

text \<open>The same bank with the answer line \<^verbatim>\<open>Answer: E\<close>.\<close>

definition e_bank_lines :: "pystr list" where
  "e_bank_lines =
     [str ''ELEMENTARY LEVEL'', str ''Easy'', str ''1. 2+2?'', str ''a) 3'', str ''b) 4'', str ''c) 5'', str ''d) 6'',
      str ''Answer: E'']"

definition e_question :: question where
  "e_question = two_plus_two\<lparr>correct_answer := str ''E''\<rparr>"

text \<open>The same bank with the answer line \<^verbatim>\<open>Answer: @\<close>.\<close>

definition at_bank_lines :: "pystr list" where
  "at_bank_lines =
     [str ''ELEMENTARY LEVEL'', str ''Easy'', str ''1. 2+2?'', str ''a) 3'', str ''b) 4'', str ''c) 5'', str ''d) 6'',
      str ''Answer: @'']"

definition at_question :: question where
  "at_question = two_plus_two\<lparr>correct_answer := str ''@''\<rparr>"

text \<open>A question whose options are single letters.\<close>

definition letter_bank_lines :: "pystr list" where
  "letter_bank_lines =
     [str ''ELEMENTARY LEVEL'', str ''Easy'', str ''1. First letter of the alphabet?'', str ''a) B'', str ''b) A'',
      str ''c) C'', str ''d) D'', str ''Answer: B'']"

definition letter_question :: question where
  "letter_question =
     \<lparr>q_class = EasyQuestion, question_text = str ''First letter of the alphabet?'',
      answers = [str ''B'', str ''A'', str ''C'', str ''D''], correct_answer = str ''B''\<rparr>"

text \<open>A question whose second option begins with a space, as a save file can hold it.\<close>

definition padded_question :: question where
  "padded_question = two_plus_two\<lparr>answers := [str ''3'', str '' 4'', str ''5'', str ''6'']\<rparr>"

text \<open>A save file that stores two points for its question, and the session that
  \<^verbatim>\<open>load_game\<close> makes of it.\<close>

definition two_point_file :: save_data where
  "two_point_file =
     \<lparr>data_meta = Some [(str ''grade_level'', str ''ELEMENTARY''), (str ''difficulty'', str ''Easy'')],
      data_score = Some 0,
      data_current_index = Some 0,
      data_remaining =
        Some [\<lparr>item_question_text = Some (str ''2+2?''), item_answers = Some [str ''3'', str ''4'', str ''5'', str ''6''],
               item_correct = Some (str ''B''), item_points = Some 2\<rparr>]\<rparr>"

definition two_point_session :: quiz_game where
  "two_point_session = session_start\<lparr>question_bank := [two_plus_two\<lparr>q_class := Question\<rparr>]\<rparr>"

text \<open>A save file with the score -1 and no question left.\<close>

definition negative_score_file :: save_data where
  "negative_score_file =
     \<lparr>data_meta = Some [(str ''grade_level'', str ''ELEMENTARY''), (str ''difficulty'', str ''Easy'')],
      data_score = Some (- 1),
      data_current_index = Some 0,
      data_remaining = Some []\<rparr>"

text \<open>A session of two questions, the first of them answered.\<close>

definition three_plus_three :: question where
  "three_plus_three =
     \<lparr>q_class = EasyQuestion, question_text = str ''3+3?'',
      answers = [str ''5'', str ''6'', str ''7'', str ''8''], correct_answer = str ''B''\<rparr>"

definition session_half :: quiz_game where
  "session_half =
     session_start\<lparr>question_bank := [two_plus_two, three_plus_three], score := 1,
                   current_index := 1\<rparr>"

section \<open>The parser on the one-question bank\<close>

text \<open>
  Claim C3. The bank with the lines \<^verbatim>\<open>ELEMENTARY LEVEL\<close>, \<^verbatim>\<open>Easy\<close>, \<^verbatim>\<open>1. 2+2?\<close>,
  \<^verbatim>\<open>a) 3\<close>, \<^verbatim>\<open>b) 4\<close>, \<^verbatim>\<open>c) 5\<close>, \<^verbatim>\<open>d) 6\<close>, \<^verbatim>\<open>Answer: B\<close> parses to exactly one
  question, filed under ELEMENTARY and Easy, with the text "2+2?", the options 3, 4, 5, 6,
  the correct letter B and one point; every other section of the bank is empty.
\<close>

theorem parse_one_question_bank:
  "load_questions_from_file (Some bank_lines) =
     Inr [(str ''ELEMENTARY'',
           [(str ''Easy'',
             [\<lparr>q_class = EasyQuestion, question_text = str ''2+2?'',
               answers = [str ''3'', str ''4'', str ''5'', str ''6''], correct_answer = str ''B''\<rparr>]),
            (str ''Medium'', []), (str ''Hard'', [])]),
          (str ''HIGH SCHOOL'', [(str ''Easy'', []), (str ''Medium'', []), (str ''Hard'', [])])] \<and>
   get_points \<lparr>q_class = EasyQuestion, question_text = str ''2+2?'',
               answers = [str ''3'', str ''4'', str ''5'', str ''6''], correct_answer = str ''B''\<rparr> = Some 1"
  by code_simp

text \<open>The example objects are what the code makes of the example banks.\<close>

lemma example_games:
  "init_game (Some bank_lines) = Inr fresh_game"
  "init_game (Some e_bank_lines) = Inr (game_of e_question)"
  "init_game (Some at_bank_lines) = Inr (game_of at_question)"
  "init_game (Some letter_bank_lines) = Inr (game_of letter_question)"
  by code_simp+

lemma example_sessions:
  "configure_session (\<lambda>i. 0) fresh_game (str ''ELEMENTARY'') (str ''Easy'') None = (session_start, Inr ())"
  "configure_session (\<lambda>i. 0) (game_of e_question) (str ''ELEMENTARY'') (str ''Easy'') None =
     (session_of e_question, Inr ())"
  "configure_session (\<lambda>i. 0) (game_of at_question) (str ''ELEMENTARY'') (str ''Easy'') None =
     (session_of at_question, Inr ())"
  "configure_session (\<lambda>i. 0) (game_of letter_question) (str ''ELEMENTARY'') (str ''Easy'') None =
     (session_of letter_question, Inr ())"
  by code_simp+

text \<open>The string functions beyond ASCII, and an input that begins with a no-break space:
  Python strips it, reads the rest as the letter E and finds the answer correct.\<close>

lemma beyond_ascii:
  "str_strip [Latin1 CHR 0xA0, Latin1 CHR ''b'', Latin1 CHR 0x85] = str ''b''"
  "str_isalpha [Latin1 CHR 0xE9]"
  "str_isdigit [Latin1 CHR 0xB2]"
  "str_upper [Latin1 CHR 0xE9] = [Latin1 CHR 0xC9]"
  "str_upper [Latin1 CHR 0xDF] = str ''SS''"
  "str_upper [Latin1 CHR 0xB5] = [Capital_Mu]"
  "str_upper [Latin1 CHR 0xFF] = [Capital_Y_Diaeresis]"
  "str_lower [Latin1 CHR 0xD1] = [Latin1 CHR 0xF1]"
  "str_lower [Capital_Mu, Capital_Y_Diaeresis] = [Small_Mu, Latin1 CHR 0xFF]"
  "check_answer (session_of e_question) [Latin1 CHR 0xA0, Latin1 CHR ''e''] =
     ((session_of e_question)\<lparr>score := 1, current_index := 1\<rparr>, Inr True)"
  by code_simp+

section \<open>Save and resume\<close>

lemma restore_item_save_item_of:
  "restore_item (save_item_of q) =
     Inr (new_question (case q_class q of Question \<Rightarrow> EasyQuestion | cls \<Rightarrow> cls)
            (question_text q) (answers q) (correct_answer q))"
  by (cases "q_class q")
     (simp_all add: restore_item_def save_item_of_def points_or_one_def get_points_def
        POINTS_TO_CLASS_def)

lemma record_fields_restored:
  "record_fields (new_question (case q_class q of Question \<Rightarrow> EasyQuestion | cls \<Rightarrow> cls)
            (question_text q) (answers q) (correct_answer q)) = record_fields q"
  by (cases "q_class q")
     (simp_all add: record_fields_def new_question_def points_or_one_def get_points_def)

lemma restore_items_saved:
  "\<exists>qs'. restore_items (map save_item_of qs) acc = Inr (acc @ qs') \<and>
     map record_fields qs' = map record_fields qs"
proof (induction qs arbitrary: acc)
  case Nil
  then show ?case by simp
next
  case (Cons q qs)
  let ?q' = "new_question (case q_class q of Question \<Rightarrow> EasyQuestion | cls \<Rightarrow> cls)
            (question_text q) (answers q) (correct_answer q)"
  from Cons.IH [of "acc @ [?q']"] obtain qs' where
    "restore_items (map save_item_of qs) (acc @ [?q']) = Inr ((acc @ [?q']) @ qs')"
    "map record_fields qs' = map record_fields qs"
    by blast
  then have "restore_items (map save_item_of (q # qs)) acc = Inr (acc @ (?q' # qs')) \<and>
     map record_fields (?q' # qs') = map record_fields (q # qs)"
    by (simp add: restore_item_save_item_of record_fields_restored)
  then show ?case by blast
qed

lemma load_game_saved:
  "\<exists>qs'. load_game g (Some (save_game s)) =
           (g\<lparr>session_meta := session_meta s, score := score s, current_index := 0,
              question_bank := qs'\<rparr>, Inr ()) \<and>
         map record_fields qs' = map record_fields (drop (current_index s) (question_bank s))"
proof -
  obtain qs' where
    r: "restore_items (map save_item_of (drop (current_index s) (question_bank s))) [] = Inr ([] @ qs')"
    and f: "map record_fields qs' = map record_fields (drop (current_index s) (question_bank s))"
    using restore_items_saved by blast
  from r have "load_game g (Some (save_game s)) =
           (g\<lparr>session_meta := session_meta s, score := score s, current_index := 0,
              question_bank := qs'\<rparr>, Inr ())"
    by (simp add: load_game_def save_game_def Let_def)
  with f show ?thesis
    by blast
qed

text \<open>
  Claim C1. Loading what \<^verbatim>\<open>save_game\<close> wrote for a session \<open>s\<close>, into any game object
  \<open>g\<close>, raises nothing, gives the score and the meta data of \<open>s\<close>, the index 0, and
  questions that agree with the unanswered questions of \<open>s\<close> (those from its index on),
  one by one, in text, options, correct letter and points.
\<close>

theorem load_save_round_trip:
  "(let g' = fst (load_game g (Some (save_game s))) in
      snd (load_game g (Some (save_game s))) = Inr () \<and>
      score g' = score s \<and>
      session_meta g' = session_meta s \<and>
      current_index g' = 0 \<and>
      map record_fields (question_bank g') =
        map record_fields (drop (current_index s) (question_bank s)))"
proof -
  obtain qs' where
    "load_game g (Some (save_game s)) =
           (g\<lparr>session_meta := session_meta s, score := score s, current_index := 0,
              question_bank := qs'\<rparr>, Inr ())"
    "map record_fields qs' = map record_fields (drop (current_index s) (question_bank s))"
    using load_game_saved by blast
  then show ?thesis
    by (simp add: Let_def)
qed


section \<open>Shuffling\<close>

lemma mset_shuffle_from:
  "i < length xs \<Longrightarrow> mset (shuffle_from rand i xs) = mset xs"
proof (induction i arbitrary: xs)
  case 0
  then show ?case by simp
next
  case (Suc i)
  let ?j = "rand (Suc i) mod (Suc i + 1)"
  have "?j < Suc i + 1"
    by (rule mod_less_divisor) simp
  with Suc.prems have j: "?j < length xs"
    by linarith
  have "mset (xs[Suc i := xs ! ?j, ?j := xs ! Suc i]) = mset xs"
    using Suc.prems j by (simp add: mset_swap)
  moreover have "i < length (xs[Suc i := xs ! ?j, ?j := xs ! Suc i])"
    using Suc.prems by simp
  ultimately show ?case
    using Suc.IH by (simp add: Let_def)
qed

lemma mset_random_shuffle: "mset (random_shuffle rand xs) = mset xs"
proof (cases xs)
  case Nil
  then show ?thesis by (simp add: random_shuffle_def)
next
  case (Cons x ys)
  then show ?thesis by (simp add: random_shuffle_def mset_shuffle_from)
qed

lemma shuffle_from_cong:
  "\<forall>k. 0 < k \<and> k \<le> i \<longrightarrow> r k = r' k \<Longrightarrow> shuffle_from r i xs = shuffle_from r' i xs"
proof (induction i arbitrary: xs)
  case 0
  then show ?case by simp
next
  case (Suc i)
  from Suc.prems have "r (Suc i) = r' (Suc i)"
    by simp
  moreover from Suc.prems have "\<forall>k. 0 < k \<and> k \<le> i \<longrightarrow> r k = r' k"
    by simp
  ultimately show ?case
    using Suc.IH by (simp add: Let_def)
qed

lemma shuffle_from_reaches:
  "length xs = length p \<Longrightarrow> i < length xs \<Longrightarrow>
   mset (take (Suc i) xs) = mset (take (Suc i) p) \<Longrightarrow>
   drop (Suc i) xs = drop (Suc i) p \<Longrightarrow>
   \<exists>rand. shuffle_from rand i xs = p"
proof (induction i arbitrary: xs)
  case 0
  from "0.prems"(1,2) obtain x xs' y p' where xs: "xs = x # xs'" and p: "p = y # p'"
    by (cases xs; cases p) auto
  with "0.prems"(3,4) have "xs = p"
    by simp
  then show ?case
    by simp
next
  case (Suc i)
  let ?n = "Suc (Suc i)"
  have lp: "Suc i < length p"
    using Suc.prems by simp
  have "p ! Suc i \<in> set (take ?n p)"
    using lp by (simp add: in_set_conv_nth) (metis lessI nth_take length_take min.absorb2 Suc_leI)
  then have "p ! Suc i \<in> set (take ?n xs)"
    using Suc.prems(3) by (metis mset_eq_setD)
  then obtain j where j: "j < ?n" "j < length xs" "xs ! j = p ! Suc i"
    by (auto simp: in_set_conv_nth)
  let ?xs' = "xs[Suc i := xs ! j, j := xs ! Suc i]"
  have top: "?xs' ! Suc i = p ! Suc i"
    using j Suc.prems(2) by (cases "j = Suc i") simp_all
  have len: "length ?xs' = length p" "i < length ?xs'"
    using Suc.prems by simp_all
  have "mset (take ?n ?xs') = mset (take ?n xs)"
  proof -
    have e: "take ?n ?xs' = (take ?n xs)[Suc i := take ?n xs ! j, j := take ?n xs ! Suc i]"
      using j by (simp add: take_update_swap)
    have "j < length (take ?n xs)" "Suc i < length (take ?n xs)"
      using j Suc.prems(2) by simp_all
    then have "mset ((take ?n xs)[Suc i := take ?n xs ! j, j := take ?n xs ! Suc i]) =
        mset (take ?n xs)"
      by (rule mset_swap)
    then show ?thesis
      unfolding e .
  qed
  then have "mset (take ?n ?xs') = mset (take ?n p)"
    using Suc.prems(3) by simp
  moreover have "take ?n ?xs' = take (Suc i) ?xs' @ [p ! Suc i]"
    using top len Suc.prems by (simp add: take_Suc_conv_app_nth)
  moreover have "take ?n p = take (Suc i) p @ [p ! Suc i]"
    using lp by (simp add: take_Suc_conv_app_nth)
  ultimately have m: "mset (take (Suc i) ?xs') = mset (take (Suc i) p)"
    by simp
  have "drop ?n ?xs' = drop ?n p"
    using j Suc.prems(4) by simp
  moreover have "drop (Suc i) ?xs' = ?xs' ! Suc i # drop ?n ?xs'"
    using len lp by (simp add: Cons_nth_drop_Suc)
  moreover have "drop (Suc i) p = p ! Suc i # drop ?n p"
    using lp by (simp add: Cons_nth_drop_Suc)
  ultimately have d: "drop (Suc i) ?xs' = drop (Suc i) p"
    using top by simp
  from Suc.IH [OF len m d] obtain rand' where r: "shuffle_from rand' i ?xs' = p"
    by blast
  let ?rand = "rand'(Suc i := j)"
  have "shuffle_from ?rand i ?xs' = shuffle_from rand' i ?xs'"
    by (rule shuffle_from_cong) simp
  moreover have "?rand (Suc i) mod (Suc i + 1) = j"
    using j by simp
  ultimately have "shuffle_from ?rand (Suc i) xs = p"
    using r by (simp add: Let_def)
  then show ?case
    by blast
qed

lemma random_shuffle_reaches:
  assumes "mset p = mset xs"
  shows "\<exists>rand. random_shuffle rand xs = p"
proof (cases xs)
  case Nil
  with assms show ?thesis
    by (simp add: random_shuffle_def)
next
  case (Cons x ys)
  from assms have len: "length xs = length p"
    by (metis size_mset)
  with Cons have "length xs - 1 < length xs" "Suc (length xs - 1) = length xs"
    by simp_all
  with len assms have "\<exists>rand. shuffle_from rand (length xs - 1) xs = p"
    by (intro shuffle_from_reaches) simp_all
  then show ?thesis
    by (simp add: random_shuffle_def)
qed

text \<open>
  Claim C9. Whatever the random draws, \<^verbatim>\<open>shuffle_question_bank\<close> leaves a session whose
  pool is a permutation of the whole previous pool (the answered questions included) and
  whose index is 0; the score, the meta data and the bank are as before. The whole pool is
  shuffled: every arrangement of the whole pool, also one that moves an answered question,
  is the result for some random draws.
\<close>

theorem shuffle_question_bank_effect:
  "mset (question_bank (shuffle_question_bank rand g)) = mset (question_bank g) \<and>
   current_index (shuffle_question_bank rand g) = 0 \<and>
   score (shuffle_question_bank rand g) = score g \<and>
   session_meta (shuffle_question_bank rand g) = session_meta g \<and>
   all_questions (shuffle_question_bank rand g) = all_questions g \<and>
   (\<forall>p. mset p = mset (question_bank g) \<longrightarrow>
        (\<exists>rand'. question_bank (shuffle_question_bank rand' g) = p))"
proof -
  have "\<exists>rand'. question_bank (shuffle_question_bank rand' g) = p"
    if "mset p = mset (question_bank g)" for p
    using random_shuffle_reaches [OF that] by (simp add: shuffle_question_bank_def)
  then show ?thesis
    by (simp add: shuffle_question_bank_def mset_random_shuffle)
qed

text \<open>In the session of two questions with the first one answered, the draw 0 puts the
  answered question last and the index back to 0; and the theorem gives draws for that
  arrangement.\<close>

theorem shuffle_question_bank_effect_witness:
  "current_index session_half = 1 \<and>
   question_bank session_half = [two_plus_two, three_plus_three] \<and>
   question_bank (shuffle_question_bank (\<lambda>i. 0) session_half) =
     [three_plus_three, two_plus_two] \<and>
   current_index (shuffle_question_bank (\<lambda>i. 0) session_half) = 0 \<and>
   (\<exists>rand'. question_bank (shuffle_question_bank rand' session_half) =
      [three_plus_three, two_plus_two])"
proof -
  have a: "current_index session_half = 1 \<and>
      question_bank session_half = [two_plus_two, three_plus_three] \<and>
      question_bank (shuffle_question_bank (\<lambda>i. 0) session_half) =
        [three_plus_three, two_plus_two]"
    by code_simp
  then have m: "mset [three_plus_three, two_plus_two] = mset (question_bank session_half)"
    by simp
  from a m shuffle_question_bank_effect [of "\<lambda>i. 0" session_half] show ?thesis
    by blast
qed

section \<open>Configuring a session\<close>

text \<open>
  Claim C4, as the code has it. \<^verbatim>\<open>configure_session\<close> raises the error of an invalid
  selection when the grade, put in upper case, is not one of ELEMENTARY and HIGH SCHOOL,
  or when the difficulty is not one of Easy, Medium and Hard; it raises the error of an
  empty pool when the selection is valid and the bank holds no question for it. In both
  cases the object after the call is the object before it.
\<close>

theorem configure_session_failures:
  "(str_upper grade_level \<notin> set GRADE_LEVELS \<or> difficulty \<notin> set DIFFICULTIES \<longrightarrow>
      configure_session rand g grade_level difficulty limit = (g, Inl ValueError_grade_level) \<or>
      configure_session rand g grade_level difficulty limit = (g, Inl ValueError_difficulty)) \<and>
   (str_upper grade_level \<in> set GRADE_LEVELS \<and> difficulty \<in> set DIFFICULTIES \<and>
    dict_get (all_questions g) (str_upper grade_level) = Inr by_diff \<and>
    dict_get by_diff difficulty = Inr [] \<longrightarrow>
      configure_session rand g grade_level difficulty limit = (g, Inl ValueError_no_questions))"
  by (simp add: configure_session_def try_bind_def)

theorem configure_session_failures_witness:
  "(configure_session (\<lambda>i. 0) session_start (str ''COLLEGE'') (str ''Easy'') None =
      (session_start, Inl ValueError_grade_level) \<or>
    configure_session (\<lambda>i. 0) session_start (str ''COLLEGE'') (str ''Easy'') None =
      (session_start, Inl ValueError_difficulty)) \<and>
   configure_session (\<lambda>i. 0) session_start (str ''HIGH SCHOOL'') (str ''Hard'') None =
     (session_start, Inl ValueError_no_questions)"
proof -
  have a: "str_upper (str ''COLLEGE'') \<notin> set GRADE_LEVELS"
    by code_simp
  have b: "str_upper (str ''HIGH SCHOOL'') \<in> set GRADE_LEVELS \<and> (str ''Hard'') \<in> set DIFFICULTIES \<and>
    dict_get (all_questions session_start) (str_upper (str ''HIGH SCHOOL'')) =
      Inr [(str ''Easy'', []), (str ''Medium'', []), (str ''Hard'', [])] \<and>
    dict_get [(str ''Easy'', []), (str ''Medium'', []), (str ''Hard'', [])] (str ''Hard'') =
      Inr ([] :: question list)"
    by code_simp
  show ?thesis
    using a b
      configure_session_failures [of "str ''COLLEGE''" "str ''Easy''" "\<lambda>i. 0" session_start None]
      configure_session_failures [of "str ''HIGH SCHOOL''" "str ''Hard''" "\<lambda>i. 0" session_start None
         "[(str ''Easy'', []), (str ''Medium'', []), (str ''Hard'', [])]"]
    by blast
qed

text \<open>The grade \<^verbatim>\<open>elementary\<close> is not one of the two grade tags, and the call succeeds.\<close>

theorem configure_session_lower_case_grade:
  "str ''elementary'' \<notin> set GRADE_LEVELS \<and>
   configure_session (\<lambda>i. 0) fresh_game (str ''elementary'') (str ''Easy'') None = (session_start, Inr ())"
  by code_simp

section \<open>Answering\<close>

text \<open>
  Claim C7. When the session is exhausted (the index is not below the length of the pool),
  \<^verbatim>\<open>check_answer\<close> raises the error "no current question", and the object after the
  call is the object before it: pool, index, score and meta data are unchanged.
\<close>

theorem check_answer_exhausted:
  "current_index g \<ge> length (question_bank g) \<Longrightarrow>
     check_answer g user_input = (g, Inl IndexError_no_current_question)"
  by (simp add: check_answer_def)

theorem check_answer_exhausted_witness:
  "current_index session_done \<ge> length (question_bank session_done) \<and>
   check_answer session_done (str ''b'') = (session_done, Inl IndexError_no_current_question)"
proof -
  have h: "current_index session_done \<ge> length (question_bank session_done)"
    by code_simp
  show ?thesis
    using h check_answer_exhausted [OF h, of "str ''b''"] by simp
qed

subsection \<open>When a call returns\<close>

lemma correct_choice_returns_iff:
  "(\<exists>t. correct_choice ans c = Inr t) \<longleftrightarrow>
     (\<exists>ch. c = [ch] \<and> - int (length ans) \<le> int (py_ord ch) - 65 \<and>
            int (py_ord ch) - 65 < int (length ans))"
proof (cases c)
  case Nil
  then show ?thesis by (simp add: correct_choice_def try_bind_def str_ord_def)
next
  case (Cons ch rest)
  show ?thesis
  proof (cases rest)
    case Nil
    with Cons show ?thesis
      by (auto simp: correct_choice_def try_bind_def str_ord_def list_get_def)
  next
    case (Cons a b)
    with \<open>c = ch # rest\<close> show ?thesis
      by (simp add: correct_choice_def try_bind_def str_ord_def)
  qed
qed

lemma correct_choice_invariant:
  assumes "record_invariant q"
  shows "\<exists>t. correct_choice (answers q) (str_upper (correct_answer q)) = Inr t"
proof -
  from assms have len: "length (answers q) = 4"
    and c: "correct_answer q = str ''A'' \<or> correct_answer q = str ''B'' \<or>
            correct_answer q = str ''C'' \<or> correct_answer q = str ''D''"
    by (auto simp: record_invariant_def)
  have "str_ord (str_upper (str ''A'')) = Inr 65" "str_ord (str_upper (str ''B'')) = Inr 66"
    "str_ord (str_upper (str ''C'')) = Inr 67" "str_ord (str_upper (str ''D'')) = Inr 68"
    by code_simp+
  with c show ?thesis
    by (elim disjE) (simp_all add: len correct_choice_def try_bind_def list_get_def)
qed

lemma match_choice_returns:
  "py_ord (Latin1 CHR ''A'') + i + length ans \<le> 1114112 \<Longrightarrow> \<exists>l. match_choice u i ans = Inr l"
proof (induction ans arbitrary: i)
  case Nil
  then show ?case by simp
next
  case (Cons choice rest)
  from Cons.prems have "py_ord (Latin1 CHR ''A'') + i < 1114112"
    and "py_ord (Latin1 CHR ''A'') + (i + 1) + length rest \<le> 1114112"
    by simp_all
  with Cons.IH [of "i + 1"] show ?case
    by (auto simp: py_chr_def)
qed

lemma user_letter_returns:
  "length ans \<le> 1114047 \<Longrightarrow> \<exists>l. user_letter ans u = Inr l"
  using match_choice_returns [of 0 ans u] by (simp add: user_letter_def)

lemma check_answer_returns_iff:
  assumes "current_index g < length (question_bank g)"
  shows "(\<exists>ok. snd (check_answer g inp) = Inr ok) \<longleftrightarrow>
     (\<exists>l. user_letter (answers (question_bank g ! current_index g)) (str_strip inp) = Inr l \<and>
        (l = Some (str_upper (correct_answer (question_bank g ! current_index g))) \<or>
         (\<exists>t. correct_choice (answers (question_bank g ! current_index g))
               (str_upper (correct_answer (question_bank g ! current_index g))) = Inr t)))"
  using assms by (auto simp: check_answer_def Let_def split: sum.splits)

lemma check_answer_invariant_returns:
  assumes "current_index g < length (question_bank g)"
    and "record_invariant (question_bank g ! current_index g)"
  shows "\<exists>ok. snd (check_answer g inp) = Inr ok"
proof -
  from assms(2) have "length (answers (question_bank g ! current_index g)) \<le> 1114047"
    by (simp add: record_invariant_def)
  then obtain l where
    "user_letter (answers (question_bank g ! current_index g)) (str_strip inp) = Inr l"
    using user_letter_returns by blast
  with correct_choice_invariant [OF assms(2)] show ?thesis
    unfolding check_answer_returns_iff [OF assms(1)] by blast
qed

lemma check_answer_returned:
  assumes "current_index g < length (question_bank g)"
    and "check_answer g inp = (g', Inr ok)"
  shows "ok = (user_letter (answers (question_bank g ! current_index g)) (str_strip inp) =
                 Inr (Some (str_upper (correct_answer (question_bank g ! current_index g)))))"
    and "g' = g\<lparr>score := (if ok then score g + points_or_one (question_bank g ! current_index g)
                           else score g),
                 current_index := current_index g + 1\<rparr>"
  using assms by (auto simp: check_answer_def Let_def split: sum.splits if_splits)

lemma check_answer_raised:
  "check_answer g inp = (g', Inl e) \<Longrightarrow> g' = g"
  by (auto simp: check_answer_def Let_def split: sum.splits if_splits)

lemma points_or_one_pos: "0 < points_or_one q"
  by (cases "q_class q") (simp_all add: points_or_one_def get_points_def)

text \<open>
  Claim C10, as the code has it. For a session with a current question whose record
  satisfies the invariant (a correct letter among A, B, C, D and exactly four options),
  \<^verbatim>\<open>check_answer\<close> raises nothing and returns a truth value. The invariant is sufficient
  and not necessary: on any current question the call returns exactly when the input is
  resolved without an exception and then either the answer is correct, or the correct
  letter in upper case is a single character whose distance from \<^verbatim>\<open>A\<close> is an index of
  the options, counted from the end when it is negative. The input is resolved without an
  exception whenever the record has at most 1114047 options (\<^verbatim>\<open>chr\<close> raises beyond).
\<close>

theorem check_answer_never_raises:
  assumes "current_index g < length (question_bank g)"
  shows "(let q = question_bank g ! current_index g; c = str_upper (correct_answer q) in
      (record_invariant q \<longrightarrow> (\<exists>ok. snd (check_answer g inp) = Inr ok)) \<and>
      ((\<exists>ok. snd (check_answer g inp) = Inr ok) \<longleftrightarrow>
         (\<exists>l. user_letter (answers q) (str_strip inp) = Inr l \<and>
            (l = Some c \<or>
             (\<exists>ch. c = [ch] \<and> - int (length (answers q)) \<le> int (py_ord ch) - 65 \<and>
                    int (py_ord ch) - 65 < int (length (answers q)))))) \<and>
      (length (answers q) \<le> 1114047 \<longrightarrow>
         (\<exists>l. user_letter (answers q) (str_strip inp) = Inr l)))"
proof -
  let ?q = "question_bank g ! current_index g"
  let ?c = "str_upper (correct_answer ?q)"
  have a: "record_invariant ?q \<longrightarrow> (\<exists>ok. snd (check_answer g inp) = Inr ok)"
    using check_answer_invariant_returns [OF assms] by blast
  have b: "(\<exists>ok. snd (check_answer g inp) = Inr ok) \<longleftrightarrow>
         (\<exists>l. user_letter (answers ?q) (str_strip inp) = Inr l \<and>
            (l = Some ?c \<or>
             (\<exists>ch. ?c = [ch] \<and> - int (length (answers ?q)) \<le> int (py_ord ch) - 65 \<and>
                    int (py_ord ch) - 65 < int (length (answers ?q)))))"
    unfolding check_answer_returns_iff [OF assms] correct_choice_returns_iff ..
  have c: "length (answers ?q) \<le> 1114047 \<longrightarrow>
         (\<exists>l. user_letter (answers ?q) (str_strip inp) = Inr l)"
    using user_letter_returns by blast
  from a b c show ?thesis
    unfolding Let_def by (intro conjI)
qed

theorem check_answer_never_raises_witness:
  "record_invariant two_plus_two \<and> (\<exists>ok. snd (check_answer session_start (str ''a'')) = Inr ok)"
proof -
  have c: "current_index session_start < length (question_bank session_start)"
    by code_simp
  have q: "question_bank session_start ! current_index session_start = two_plus_two"
    by code_simp
  have r: "record_invariant two_plus_two"
    by code_simp
  show ?thesis
    using r q check_answer_never_raises [OF c, of "str ''a''"] by (simp add: Let_def)
qed

text \<open>The correct letter \<^verbatim>\<open>@\<close> is none of A to D; the index it gives is -1, the last of
  the four options, and the call with a wrong answer returns.\<close>

theorem check_answer_at_sign_returns:
  "\<not> record_invariant at_question \<and>
   current_index (session_of at_question) < length (question_bank (session_of at_question)) \<and>
   correct_choice (answers at_question) (str_upper (correct_answer at_question)) = Inr (str ''6'') \<and>
   check_answer (session_of at_question) (str ''a'') =
     ((session_of at_question)\<lparr>current_index := 1\<rparr>, Inr False)"
  by code_simp

subsection \<open>The step of a call\<close>

lemma session_step_invariant:
  assumes "session_step g g'" and "session_invariant g"
  shows "session_invariant g'"
  using assms
proof (induction rule: session_step.induct)
  case (step_configure rand g grade_level difficulty limit g' r)
  then show ?case
    by (auto simp: configure_session_def session_invariant_def Let_def
        split: if_splits sum.splits)
next
  case (step_display g g' shown)
  then show ?case
    by (auto simp: display_question_def split: if_splits)
next
  case (step_answer g user_input g' ok)
  show ?case
  proof (cases ok)
    case (Inl e)
    with step_answer show ?thesis
      using check_answer_raised by blast
  next
    case (Inr b)
    with step_answer have cur: "current_index g < length (question_bank g)"
      by (auto simp: check_answer_def split: if_splits)
    from check_answer_returned(2) [OF cur] step_answer Inr
    have "g' = g\<lparr>score := (if b then score g + points_or_one (question_bank g ! current_index g)
                           else score g),
                 current_index := current_index g + 1\<rparr>"
      by blast
    with cur step_answer.prems points_or_one_pos [of "question_bank g ! current_index g"]
    show ?thesis
      by (auto simp: session_invariant_def)
  qed
next
  case (step_shuffle g rand)
  then show ?case
    by (simp add: shuffle_question_bank_def session_invariant_def)
next
  case (step_reset g)
  then show ?case
    by (simp add: reset_game_def session_invariant_def)
qed

lemma load_game_effect:
  assumes "load_game g file = (g', r)"
  shows "score g' = (case file of None \<Rightarrow> score g | Some d \<Rightarrow> stored_score d)"
    and "current_index g \<le> length (question_bank g) \<Longrightarrow>
         current_index g' \<le> length (question_bank g')"
  using assms
  by (auto simp: load_game_def stored_score_def Let_def split: option.splits sum.splits)

text \<open>
  Claim C6, as the code has it. A call of \<^verbatim>\<open>check_answer\<close> with a current question whose
  record satisfies the invariant returns. Every call with a current question that returns
  gives back whether the answer was correct, advances the index by exactly 1, and adds
  exactly the points of the current question to the score when the answer was correct,
  leaving the score as it was otherwise. A call that raises leaves the object as it was.
  The bounds on the index (at most the length of the pool) and on the score (not negative)
  are kept by every call of configure, display, check_answer, shuffle and reset, returning
  or raising. \<^verbatim>\<open>load_game\<close> keeps the bound on the index, and its score is the one stored
  in the file (the score before, when there is no file).
\<close>

theorem check_answer_advances:
  "(current_index g < length (question_bank g) \<and>
    record_invariant (question_bank g ! current_index g) \<longrightarrow>
      (\<exists>ok. snd (check_answer g inp) = Inr ok)) \<and>
   (current_index g < length (question_bank g) \<and> check_answer g inp = (g', Inr ok) \<longrightarrow>
      ok = (user_letter (answers (question_bank g ! current_index g)) (str_strip inp) =
              Inr (Some (str_upper (correct_answer (question_bank g ! current_index g))))) \<and>
      g' = g\<lparr>score := (if ok then score g + points_or_one (question_bank g ! current_index g)
                        else score g),
              current_index := current_index g + 1\<rparr>) \<and>
   (check_answer g inp = (g1, Inl e) \<longrightarrow> g1 = g) \<and>
   (session_invariant g \<and> session_step g g2 \<longrightarrow> session_invariant g2) \<and>
   (load_game g file = (g3, r) \<longrightarrow>
      score g3 = (case file of None \<Rightarrow> score g | Some d \<Rightarrow> stored_score d) \<and>
      (current_index g \<le> length (question_bank g) \<longrightarrow>
         current_index g3 \<le> length (question_bank g3)))"
proof (intro conjI impI)
  assume "current_index g < length (question_bank g) \<and>
    record_invariant (question_bank g ! current_index g)"
  then show "\<exists>ok. snd (check_answer g inp) = Inr ok"
    using check_answer_invariant_returns by blast
next
  assume a: "current_index g < length (question_bank g) \<and> check_answer g inp = (g', Inr ok)"
  then show "ok = (user_letter (answers (question_bank g ! current_index g)) (str_strip inp) =
              Inr (Some (str_upper (correct_answer (question_bank g ! current_index g)))))"
    using check_answer_returned(1) by blast
  from a show "g' = g\<lparr>score := (if ok then score g + points_or_one (question_bank g ! current_index g)
                        else score g),
              current_index := current_index g + 1\<rparr>"
    using check_answer_returned(2) by blast
next
  assume "check_answer g inp = (g1, Inl e)"
  then show "g1 = g"
    by (rule check_answer_raised)
next
  assume "session_invariant g \<and> session_step g g2"
  then show "session_invariant g2"
    using session_step_invariant by blast
next
  assume l: "load_game g file = (g3, r)"
  then show "score g3 = (case file of None \<Rightarrow> score g | Some d \<Rightarrow> stored_score d)"
    by (rule load_game_effect(1))
  assume "current_index g \<le> length (question_bank g)"
  with l show "current_index g3 \<le> length (question_bank g3)"
    by (rule load_game_effect(2))
qed

text \<open>The theorem at the one-question session: the right answer, then a call on the
  exhausted session, which raises, and the loading of what \<^verbatim>\<open>save_game\<close> wrote.\<close>

theorem check_answer_advances_witness:
  "(\<exists>ok. snd (check_answer session_start (str ''b'')) = Inr ok) \<and>
   session_done = session_start\<lparr>score := score session_start + points_or_one two_plus_two,
                                current_index := current_index session_start + 1\<rparr> \<and>
   check_answer session_done (str ''b'') = (session_done, Inl IndexError_no_current_question) \<and>
   session_invariant session_done \<and>
   score (fst (load_game session_start (Some (save_game session_done)))) = 1 \<and>
   current_index (fst (load_game session_start (Some (save_game session_done)))) \<le>
     length (question_bank (fst (load_game session_start (Some (save_game session_done)))))"
proof -
  have c: "current_index session_start < length (question_bank session_start)"
    by code_simp
  have q: "question_bank session_start ! current_index session_start = two_plus_two"
    by code_simp
  have r: "record_invariant two_plus_two"
    by code_simp
  have e: "check_answer session_start (str ''b'') = (session_done, Inr True)"
    by code_simp
  have x: "check_answer session_done (str ''b'') = (session_done, Inl IndexError_no_current_question)"
    by code_simp
  have i: "session_invariant session_start"
    by code_simp
  have s: "session_step session_start session_done"
    using e by (rule step_answer)
  have t: "stored_score (save_game session_done) = 1"
    by code_simp
  obtain g3 r3 where l: "load_game session_start (Some (save_game session_done)) = (g3, r3)"
    by (cases "load_game session_start (Some (save_game session_done))")
  note inst = check_answer_advances
    [of session_start "str ''b''" session_done True session_done
        IndexError_no_current_question session_done
        "Some (save_game session_done)" g3 r3]
  from inst c q r have w1: "\<exists>ok. snd (check_answer session_start (str ''b'')) = Inr ok"
    by simp
  from inst c e q have w2: "session_done =
      session_start\<lparr>score := score session_start + points_or_one two_plus_two,
                    current_index := current_index session_start + 1\<rparr>"
    by simp
  from inst i s have w3: "session_invariant session_done"
    by blast
  from inst l t c have w4: "score g3 = 1 \<and> current_index g3 \<le> length (question_bank g3)"
    by simp
  from w1 w2 x w3 w4 l show ?thesis
    by simp
qed

text \<open>The bank with the answer line \<^verbatim>\<open>Answer: E\<close>: the call with a wrong answer raises,
  the index stays where it was and nothing is returned. And the file with the score -1,
  loaded into a game object that satisfies the invariant, leaves the score -1.\<close>

theorem check_answer_raises_on_letter_E:
  "current_index (session_of e_question) < length (question_bank (session_of e_question)) \<and>
   check_answer (session_of e_question) (str ''a'') =
     (session_of e_question, Inl IndexError_out_of_range) \<and>
   session_invariant fresh_game \<and>
   snd (load_game fresh_game (Some negative_score_file)) = Inr () \<and>
   score (fst (load_game fresh_game (Some negative_score_file))) = - 1"
  by code_simp

subsection \<open>How the input is resolved\<close>

lemma match_choice_first:
  "first_match_at u ans k \<Longrightarrow>
     match_choice u i ans = py_chr (py_ord (Latin1 CHR ''A'') + (i + k))"
proof (induction ans arbitrary: i k)
  case Nil
  then show ?case by (simp add: first_match_at_def)
next
  case (Cons choice rest)
  show ?case
  proof (cases k)
    case 0
    with Cons.prems show ?thesis
      by (simp add: first_match_at_def)
  next
    case (Suc k')
    with Cons.prems have "first_match_at u rest k'" and "str_lower u \<noteq> str_lower choice"
      by (simp_all add: first_match_at_def)
    with Cons.IH [of k' "i + 1"] Suc show ?thesis
      by simp
  qed
qed

lemma match_choice_none:
  "list_all (\<lambda>a. str_lower u \<noteq> str_lower a) ans \<Longrightarrow> match_choice u i ans = Inr None"
  by (induction ans arbitrary: i) simp_all

text \<open>
  Claim C5, as the code has it. For a current question, with \<open>u\<close> the trimmed input and
  \<open>c\<close> the correct letter in upper case: an empty \<open>u\<close> is never correct; a \<open>u\<close> of exactly
  one alphabetic character is taken as a letter, and is correct exactly when its upper
  case is \<open>c\<close>; any other \<open>u\<close> is compared in lower case with the texts of the options in
  lower case, and when option \<open>k\<close> is the first that matches, it is correct exactly when
  \<^verbatim>\<open>chr(65 + k)\<close> is \<open>c\<close>; when no option matches it is not correct.
\<close>

theorem check_answer_resolution:
  assumes "current_index g < length (question_bank g)"
  shows "(let q = question_bank g ! current_index g;
              u = str_strip inp;
              c = str_upper (correct_answer q);
              correct = (snd (check_answer g inp) = Inr True) in
     (u = [] \<longrightarrow> \<not> correct) \<and>
     (length u = 1 \<and> str_isalpha u \<longrightarrow> (correct \<longleftrightarrow> str_upper u = c)) \<and>
     (u \<noteq> [] \<and> \<not> (length u = 1 \<and> str_isalpha u) \<longrightarrow>
        (\<forall>k. first_match_at u (answers q) k \<longrightarrow>
               (correct \<longleftrightarrow> py_chr (py_ord (Latin1 CHR ''A'') + k) = Inr (Some c))) \<and>
        (list_all (\<lambda>a. str_lower u \<noteq> str_lower a) (answers q) \<longrightarrow> \<not> correct)))"
proof -
  let ?q = "question_bank g ! current_index g"
  let ?u = "str_strip inp"
  let ?c = "str_upper (correct_answer ?q)"
  have ok: "snd (check_answer g inp) = Inr True \<longleftrightarrow> user_letter (answers ?q) ?u = Inr (Some ?c)"
    using assms by (auto simp: check_answer_def Let_def split: sum.splits)
  have a: "?u = [] \<Longrightarrow> user_letter (answers ?q) ?u = Inr None"
    by (simp add: user_letter_def)
  have b: "length ?u = 1 \<and> str_isalpha ?u \<Longrightarrow>
      user_letter (answers ?q) ?u = Inr (Some (str_upper ?u))"
    by (auto simp: user_letter_def)
  have c: "?u \<noteq> [] \<and> \<not> (length ?u = 1 \<and> str_isalpha ?u) \<Longrightarrow>
      user_letter (answers ?q) ?u = match_choice ?u 0 (answers ?q)"
    by (auto simp: user_letter_def)
  show ?thesis
    unfolding Let_def ok
    using a b c match_choice_first [of ?u "answers ?q" _ 0] match_choice_none [of ?u "answers ?q" 0]
    by (intro conjI impI allI) simp_all
qed

text \<open>On the one-question session: a blank input, the letter \<^verbatim>\<open>b\<close>, the text \<^verbatim>\<open>4\<close>
  followed by a space, and the text \<^verbatim>\<open>7\<close> that no option has.\<close>

theorem check_answer_resolution_witness:
  "snd (check_answer session_start (str '' '')) \<noteq> Inr True \<and>
   snd (check_answer session_start (str ''b'')) = Inr True \<and>
   snd (check_answer session_start (str ''4 '')) = Inr True \<and>
   snd (check_answer session_start (str ''7'')) \<noteq> Inr True"
proof -
  have c: "current_index session_start < length (question_bank session_start)"
    by code_simp
  have q: "question_bank session_start ! current_index session_start = two_plus_two"
    by code_simp
  have h1: "str_strip (str '' '') = []"
    by code_simp
  have h2: "length (str_strip (str ''b'')) = 1 \<and> str_isalpha (str_strip (str ''b'')) \<and>
      str_upper (str_strip (str ''b'')) = str_upper (correct_answer two_plus_two)"
    by code_simp
  have h3a: "str_strip (str ''4 '') \<noteq> [] \<and>
      \<not> (length (str_strip (str ''4 '')) = 1 \<and> str_isalpha (str_strip (str ''4 ''))) \<and>
      first_match_at (str_strip (str ''4 '')) (answers two_plus_two) 1"
    by code_simp
  have "str_upper (correct_answer two_plus_two) = [Latin1 CHR ''B'']"
    and "codepoint_of 66 = Some (Latin1 CHR ''B'')"
    by code_simp+
  then have h3b: "py_chr (py_ord (Latin1 CHR ''A'') + 1) =
      Inr (Some (str_upper (correct_answer two_plus_two)))"
    by (simp add: py_chr_def)
  note h3 = h3a h3b
  have h4: "str_strip (str ''7'') \<noteq> [] \<and>
      \<not> (length (str_strip (str ''7'')) = 1 \<and> str_isalpha (str_strip (str ''7''))) \<and>
      list_all (\<lambda>a. str_lower (str_strip (str ''7'')) \<noteq> str_lower a) (answers two_plus_two)"
    by code_simp
  have w1: "snd (check_answer session_start (str '' '')) \<noteq> Inr True"
    using check_answer_resolution [OF c, of "str '' ''"] h1 unfolding Let_def q by blast
  have w2: "snd (check_answer session_start (str ''b'')) = Inr True"
    using check_answer_resolution [OF c, of "str ''b''"] h2 unfolding Let_def q by blast
  have w3: "snd (check_answer session_start (str ''4 '')) = Inr True"
    using check_answer_resolution [OF c, of "str ''4 ''"] h3 unfolding Let_def q by blast
  have w4: "snd (check_answer session_start (str ''7'')) \<noteq> Inr True"
    using check_answer_resolution [OF c, of "str ''7''"] h4 unfolding Let_def q by blast
  from w1 w2 w3 w4 show ?thesis
    by simp
qed

text \<open>The correct option of the letter question is B, whose text is \<^verbatim>\<open>A\<close>; that text as
  the input is taken as the letter A and is not correct. The text of the correct option of
  the padded question, a space and \<^verbatim>\<open>4\<close>, is trimmed and matches no option. The
  correct letter \<^verbatim>\<open>@\<close> as the input is not alphabetic, is compared with the texts and
  matches none.\<close>

theorem check_answer_text_of_correct_option_wrong:
  "current_index (session_of letter_question) < length (question_bank (session_of letter_question)) \<and>
   question_bank (session_of letter_question) ! current_index (session_of letter_question) =
     letter_question \<and>
   correct_choice (answers letter_question) (str_upper (correct_answer letter_question)) =
     Inr (str ''A'') \<and>
   check_answer (session_of letter_question) (str ''A'') =
     ((session_of letter_question)\<lparr>current_index := 1\<rparr>, Inr False) \<and>
   correct_choice (answers padded_question) (str_upper (correct_answer padded_question)) =
     Inr (str '' 4'') \<and>
   check_answer (session_of padded_question) (str '' 4'') =
     ((session_of padded_question)\<lparr>current_index := 1\<rparr>, Inr False) \<and>
   correct_answer at_question = str ''@'' \<and>
   check_answer (session_of at_question) (str ''@'') =
     ((session_of at_question)\<lparr>current_index := 1\<rparr>, Inr False)"
  by code_simp

section \<open>Displaying and the end of a session\<close>







section \<open>Loading a file with other point values\<close>

lemma restore_items_nth:
  "restore_items items acc = Inr r \<Longrightarrow>
     \<exists>qs. r = acc @ qs \<and> length qs = length items \<and>
          (\<forall>k<length items. restore_item (items ! k) = Inr (qs ! k))"
proof (induction items arbitrary: acc)
  case Nil
  then show ?case by simp
next
  case (Cons item items)
  from Cons.prems obtain q where
    q: "restore_item item = Inr q" and
    rest: "restore_items items (acc @ [q]) = Inr r"
    by (cases "restore_item item") simp_all
  from Cons.IH [OF rest] obtain qs where
    r: "r = (acc @ [q]) @ qs" and
    len: "length qs = length items" and
    nth: "\<forall>k<length items. restore_item (items ! k) = Inr (qs ! k)"
    by blast
  have "\<forall>k<length (item # items). restore_item ((item # items) ! k) = Inr ((q # qs) ! k)"
  proof (intro allI impI)
    fix k
    assume "k < length (item # items)"
    then show "restore_item ((item # items) ! k) = Inr ((q # qs) ! k)"
      using q nth by (cases k) simp_all
  qed
  moreover have "r = acc @ (q # qs)"
    using r by simp
  moreover have "length (q # qs) = length (item # items)"
    using len by simp
  ultimately show ?case
    by blast
qed

lemma restore_item_other_points:
  assumes "restore_item item = Inr q" and "item_points item = Some p"
    and "p \<noteq> 1" and "p \<noteq> 3" and "p \<noteq> 5"
  shows "q_class q = Question"
  using assms
  by (auto simp: restore_item_def POINTS_TO_CLASS_def new_question_def Let_def
      split: option.splits)

text \<open>
  Claim C2, as the code has it. When \<^verbatim>\<open>load_game\<close> returns, a record of the file whose
  stored points \<open>p\<close> are none of 1, 3 and 5 is rebuilt as a question of the base class,
  which has no point value of its own: \<open>p\<close> is not kept. A correct answer to that
  question adds exactly 1 to the score.
\<close>

theorem load_game_other_points:
  assumes "load_game g (Some d) = (g', Inr ())"
    and "data_remaining d = Some items"
    and "k < length items"
    and "item_points (items ! k) = Some p"
    and "p \<noteq> 1" and "p \<noteq> 3" and "p \<noteq> 5"
  shows "k < length (question_bank g') \<and>
     q_class (question_bank g' ! k) = Question \<and>
     get_points (question_bank g' ! k) = None \<and>
     (\<forall>g2 inp. current_index g2 < length (question_bank g2) \<and>
        question_bank g2 ! current_index g2 = question_bank g' ! k \<and>
        snd (check_answer g2 inp) = Inr True \<longrightarrow>
          score (fst (check_answer g2 inp)) = score g2 + 1)"
proof -
  from assms(1,2) have r: "restore_items items [] = Inr (question_bank g')"
    by (auto simp: load_game_def Let_def split: sum.splits)
  from restore_items_nth [OF r] assms(3) have
    len: "k < length (question_bank g')" and
    it: "restore_item (items ! k) = Inr (question_bank g' ! k)"
    by auto
  from restore_item_other_points [OF it assms(4-7)]
  have cls: "q_class (question_bank g' ! k) = Question" .
  then have pts: "get_points (question_bank g' ! k) = None"
    by (simp add: get_points_def)
  have "score (fst (check_answer g2 inp)) = score g2 + 1"
    if cur: "current_index g2 < length (question_bank g2)"
      and same: "question_bank g2 ! current_index g2 = question_bank g' ! k"
      and right: "snd (check_answer g2 inp) = Inr True" for g2 inp
  proof -
    obtain g3 where one: "check_answer g2 inp = (g3, Inr True)"
      using right by (cases "check_answer g2 inp") simp
    from check_answer_returned(2) [OF cur one] same pts one show ?thesis
      by (simp add: points_or_one_def)
  qed
  with len cls pts show ?thesis
    by blast
qed

theorem load_game_other_points_witness:
  "q_class (question_bank two_point_session ! 0) = Question \<and>
   score (fst (check_answer two_point_session (str ''b''))) = score two_point_session + 1"
proof -
  have l: "load_game fresh_game (Some two_point_file) = (two_point_session, Inr ())"
    by code_simp
  have d: "data_remaining two_point_file =
      Some [\<lparr>item_question_text = Some (str ''2+2?''), item_answers = Some [str ''3'', str ''4'', str ''5'', str ''6''],
               item_correct = Some (str ''B''), item_points = Some 2\<rparr>]"
    by (simp add: two_point_file_def)
  have c: "current_index two_point_session < length (question_bank two_point_session) \<and>
        question_bank two_point_session ! current_index two_point_session =
          question_bank two_point_session ! 0 \<and>
        snd (check_answer two_point_session (str ''b'')) = Inr True"
    by code_simp
  from load_game_other_points [OF l d, of 0 2] c show ?thesis
    by simp
qed

text \<open>The file that stores two points: the score is 0 after loading and 1, not 2, after
  the correct answer.\<close>

theorem load_game_two_points_scores_one:
  "load_game fresh_game (Some two_point_file) = (two_point_session, Inr ()) \<and>
   score two_point_session = 0 \<and>
   check_answer two_point_session (str ''b'') =
     (two_point_session\<lparr>score := 1, current_index := 1\<rparr>, Inr True)"
  by code_simp

end
